theory Spec2Isabelle
  imports Main
begin

section \<open>Data model\<close>

text \<open>
  The provider of \<^verbatim>\<open>src/providers/DevicesProvider/AudioInputProvider.tsx\<close> mirrors
  the audio-input devices of the media engine and the selection of the session manager
  into React state. A device is the browser's \<^verbatim>\<open>MediaDeviceInfo\<close>; the code reads
  its \<^verbatim>\<open>deviceId\<close> and its \<^verbatim>\<open>label\<close> only.
\<close>

datatype MediaDeviceKind = audioinput | audiooutput | videoinput

record MediaDeviceInfo =
  deviceId :: string
  groupId :: string
  kind :: MediaDeviceKind
  label :: string

text \<open>
  An awaited promise either resolves with a value or rejects. An \<^verbatim>\<open>await\<close> on a
  rejected promise throws, so the statements after it do not run; nothing in the file
  catches it.
\<close>

datatype 'a settled = Resolved 'a | Rejected

text \<open>
  The two external collaborators, as far as the provider reads and calls them. Their
  declarations are not part of the source file, so what they report and how their
  promises settle are fields of these records: parameters of the model.
  \<^verbatim>\<open>meetingManager.selectedAudioInputDevice\<close> is \<^verbatim>\<open>string | null\<close> (it initialises
  a state of that type); the label is compared with \<^verbatim>\<open>!==\<close> against a string, so
  \<open>None\<close> stands for any value that is not a string.
\<close>

record MeetingManager =
  selectedAudioInputDevice :: "string option"
  selectedAudioInputDeviceLabel :: "string option"
  selectAudioInputDevice :: "string \<Rightarrow> unit settled"

record AudioVideoFacade =
  chooseAudioInputDevice :: "string option \<Rightarrow> unit settled"

text \<open>
  Every call the provider issues to a collaborator (and to the console) is recorded, oldest
  first. The observer of the \<open>k\<close>-th run of the enumeration effect is \<open>ListObserver k\<close>,
  the observer that the \<open>j\<close>-th run of the reconciliation effect creates is
  \<open>ReconcileObserver j\<close>.
\<close>

datatype observer = ListObserver nat | ReconcileObserver nat

datatype call =
    SubscribeToSelectedAudioInputDevice
  | UnsubscribeFromSelectedAudioInputDevice
  | ListAudioInputDevices
  | AddDeviceChangeObserver observer
  | RemoveDeviceChangeObserver observer
  | ChooseAudioInputDevice "string option"
  | SelectAudioInputDevice string
  | ConsoleLog string

text \<open>The reconciliation side effects: deselect, reselect and select-none.\<close>

fun is_reconciliation :: "call \<Rightarrow> bool" where
  "is_reconciliation (ChooseAudioInputDevice _) = True"
| "is_reconciliation (SelectAudioInputDevice _) = True"
| "is_reconciliation _ = False"

section \<open>The reconciliation observer (lines 79 to 100)\<close>

text \<open>
  \<^verbatim>\<open>audioInputsChanged\<close> of the third effect. Its closure holds the engine handle
  (not null: the effect returns before creating the observer otherwise) and the cached
  selection of the render that created it; \<^verbatim>\<open>initialized.current\<close> is read when it
  runs. Everything it reads, it reads before its first \<^verbatim>\<open>await\<close>. The result is the
  calls it makes, in order, and how its own promise settles.
\<close>

definition audioInputsChanged ::
  "bool \<Rightarrow> string option \<Rightarrow> MeetingManager \<Rightarrow> AudioVideoFacade \<Rightarrow> MediaDeviceInfo list
    \<Rightarrow> call list \<times> unit settled" where
  "audioInputsChanged initialized_current selected meetingManager audioVideo newAudioInputs =
    (if \<not> initialized_current then ([], Resolved ())
     else
       (case find (\<lambda>device. Some (deviceId device) = selected) newAudioInputs of
          Some existingDevice \<Rightarrow>
            (let outdatedDevice =
                   (Some (label existingDevice) \<noteq> selectedAudioInputDeviceLabel meetingManager
                    \<or> Some (deviceId existingDevice) \<noteq> selectedAudioInputDevice meetingManager)
             in if outdatedDevice then
                  (case chooseAudioInputDevice audioVideo None of
                     Rejected \<Rightarrow>
                       ([ConsoleLog ''Stale audio input device found. Dropping and selecting audio input'',
                         ChooseAudioInputDevice None],
                        Rejected)
                   | Resolved _ \<Rightarrow>
                       ([ConsoleLog ''Stale audio input device found. Dropping and selecting audio input'',
                         ChooseAudioInputDevice None,
                         SelectAudioInputDevice (deviceId existingDevice)],
                        selectAudioInputDevice meetingManager (deviceId existingDevice)))
                else ([], Resolved ()))
        | None \<Rightarrow>
            ([SelectAudioInputDevice ''none''], selectAudioInputDevice meetingManager ''none'')))"

section \<open>The provider's state and its closures\<close>

text \<open>
  One run of the enumeration effect (lines 42 to 71): the engine handle it captured, its
  local \<^verbatim>\<open>isMounted\<close>, and whether its call of \<^verbatim>\<open>listAudioInputDevices\<close> is still
  outstanding.
\<close>

record init_effect =
  captured :: "AudioVideoFacade option"
  isMounted :: bool
  pending :: bool

text \<open>
  One run of the reconciliation effect (lines 73 to 106) that got past the null check:
  the closure of its observer. It holds the engine handle and the
  \<^verbatim>\<open>selectedAudioInputDevice\<close> of the render that ran the effect. The observer keeps
  these two values for as long as it exists: a later change of the cached selection
  does not reach it, React creates a new observer instead when it runs the effect
  again (the dependencies of line 106).
\<close>

record reconcile_effect =
  engine :: AudioVideoFacade
  selected_captured :: "string option"

text \<open>
  The component: the two \<^verbatim>\<open>useState\<close> cells, the \<^verbatim>\<open>useRef\<close>, the runs of the
  enumeration effect so far, the reconciliation observers created so far, and the calls
  issued so far.
\<close>

record provider =
  audioInputs :: "MediaDeviceInfo list"
  cachedSelectedAudioInputDevice :: "string option"
  initialized :: bool
  effects :: "init_effect list"
  reconcilers :: "reconcile_effect list"
  calls :: "call list"

definition initial :: "MeetingManager \<Rightarrow> provider" where
  "initial meetingManager =
     \<lparr>audioInputs = [],
      cachedSelectedAudioInputDevice = selectedAudioInputDevice meetingManager,
      initialized = False,
      effects = [],
      reconcilers = [],
      calls = []\<rparr>"

text \<open>Lines 32 to 34: the selection callback.\<close>

definition callback :: "string option \<Rightarrow> provider \<Rightarrow> provider" where
  "callback updatedAudioInputDevice st =
     st\<lparr>cachedSelectedAudioInputDevice := updatedAudioInputDevice\<rparr>"

text \<open>Lines 46 to 48: the observer that stores the new list.\<close>

definition list_audioInputsChanged :: "MediaDeviceInfo list \<Rightarrow> provider \<Rightarrow> provider" where
  "list_audioInputsChanged newAudioInputs st = st\<lparr>audioInputs := newAudioInputs\<rparr>"

text \<open>
  Lines 43 to 65: the effect body. It creates the closure (\<^verbatim>\<open>isMounted = true\<close>) and
  calls \<^verbatim>\<open>initAudioInput\<close>, which returns at once without an engine and otherwise
  requests the device list and suspends.
\<close>

definition initAudioInput :: "AudioVideoFacade option \<Rightarrow> provider \<Rightarrow> provider" where
  "initAudioInput audioVideo st =
     (case audioVideo of
        None \<Rightarrow>
          st\<lparr>effects := effects st @ [\<lparr>captured = None, isMounted = True, pending = False\<rparr>]\<rparr>
      | Some av \<Rightarrow>
          st\<lparr>effects := effects st @ [\<lparr>captured = Some av, isMounted = True, pending = True\<rparr>],
             calls := calls st @ [ListAudioInputDevices]\<rparr>)"

text \<open>
  Lines 56 to 62: \<^verbatim>\<open>initAudioInput\<close> of run \<open>k\<close> resumes when its request settles.
  A rejection throws out of the function. A run that has no outstanding request has
  nothing to resume.
\<close>

definition initAudioInput_resume ::
  "nat \<Rightarrow> MediaDeviceInfo list settled \<Rightarrow> provider \<Rightarrow> provider" where
  "initAudioInput_resume k result st =
     (if k < length (effects st) \<and> pending (effects st ! k) then
        (let st1 = st\<lparr>effects := (effects st)[k := (effects st ! k)\<lparr>pending := False\<rparr>]\<rparr>
         in case result of
              Rejected \<Rightarrow> st1
            | Resolved devices \<Rightarrow>
                if isMounted (effects st ! k) then
                  st1\<lparr>audioInputs := devices,
                      calls := calls st1 @ [AddDeviceChangeObserver (ListObserver k)],
                      initialized := True\<rparr>
                else st1)
      else st)"

text \<open>Lines 67 to 70: the cleanup of run \<open>k\<close>.\<close>

definition init_cleanup :: "nat \<Rightarrow> provider \<Rightarrow> provider" where
  "init_cleanup k st =
     (if k < length (effects st) then
        st\<lparr>effects := (effects st)[k := (effects st ! k)\<lparr>isMounted := False\<rparr>],
           calls := calls st @
             (case captured (effects st ! k) of
                None \<Rightarrow> []
              | Some av \<Rightarrow> [RemoveDeviceChangeObserver (ListObserver k)])\<rparr>
      else st)"

text \<open>
  Lines 73 to 103: the body of the reconciliation effect. Without an engine it returns
  at once; otherwise it creates an observer that closes over the engine and over the
  cached selection as it is in this render, and registers it.
\<close>

definition reconcile_effect_body :: "AudioVideoFacade option \<Rightarrow> provider \<Rightarrow> provider" where
  "reconcile_effect_body audioVideo st =
     (case audioVideo of
        None \<Rightarrow> st
      | Some av \<Rightarrow>
          st\<lparr>reconcilers := reconcilers st @
               [\<lparr>engine = av, selected_captured = cachedSelectedAudioInputDevice st\<rparr>],
             calls := calls st @
               [AddDeviceChangeObserver (ReconcileObserver (length (reconcilers st)))]\<rparr>)"

text \<open>Line 105: the cleanup that the \<open>j\<close>-th run of the reconciliation effect returned.\<close>

definition reconcile_cleanup :: "nat \<Rightarrow> provider \<Rightarrow> provider" where
  "reconcile_cleanup j st =
     (if j < length (reconcilers st) then
        st\<lparr>calls := calls st @ [RemoveDeviceChangeObserver (ReconcileObserver j)]\<rparr>
      else st)"

text \<open>
  The engine invokes the observer of run \<open>j\<close> with a new device list. The observer
  works with the engine and the selection in its own closure, and reads the ref and the
  session manager as they are now.
\<close>

definition reconcile_fired ::
  "nat \<Rightarrow> MeetingManager \<Rightarrow> MediaDeviceInfo list \<Rightarrow> provider \<Rightarrow> provider" where
  "reconcile_fired j meetingManager newAudioInputs st =
     (if j < length (reconcilers st) then
        st\<lparr>calls := calls st @
           fst (audioInputsChanged (initialized st) (selected_captured (reconcilers st ! j))
                  meetingManager (engine (reconcilers st ! j)) newAudioInputs)\<rparr>
      else st)"

text \<open>
  What can happen to a mounted provider: each event is one run of a closure that the
  source defines. Between a change of the cached selection (\<open>SelectionCallback\<close>) and
  the next run of the reconciliation effect (\<open>ReconcileEffect\<close>), an observer that is
  invoked still works with the selection it captured.
\<close>

datatype event =
    SubscribeEffect
  | SubscribeCleanup
  | SelectionCallback "string option"
  | InitEffect "AudioVideoFacade option"
  | FetchSettled nat "MediaDeviceInfo list settled"
  | InitCleanup nat
  | ListObserverFired "MediaDeviceInfo list"
  | ReconcileEffect "AudioVideoFacade option"
  | ReconcileCleanup nat
  | ReconcileFired nat MeetingManager "MediaDeviceInfo list"

fun step :: "event \<Rightarrow> provider \<Rightarrow> provider" where
  "step SubscribeEffect st = st\<lparr>calls := calls st @ [SubscribeToSelectedAudioInputDevice]\<rparr>"
| "step SubscribeCleanup st = st\<lparr>calls := calls st @ [UnsubscribeFromSelectedAudioInputDevice]\<rparr>"
| "step (SelectionCallback updated) st = callback updated st"
| "step (InitEffect audioVideo) st = initAudioInput audioVideo st"
| "step (FetchSettled k result) st = initAudioInput_resume k result st"
| "step (InitCleanup k) st = init_cleanup k st"
| "step (ListObserverFired newAudioInputs) st = list_audioInputsChanged newAudioInputs st"
| "step (ReconcileEffect audioVideo) st = reconcile_effect_body audioVideo st"
| "step (ReconcileCleanup j) st = reconcile_cleanup j st"
| "step (ReconcileFired j meetingManager newAudioInputs) st =
     reconcile_fired j meetingManager newAudioInputs st"

text \<open>
  One enumeration-change event delivered to a reconciliation observer: which observer,
  what the session manager reports at that moment, and the new list.
\<close>

fun fire :: "nat \<times> MeetingManager \<times> MediaDeviceInfo list \<Rightarrow> event" where
  "fire (j, meetingManager, newAudioInputs) = ReconcileFired j meetingManager newAudioInputs"

fun run :: "event list \<Rightarrow> provider \<Rightarrow> provider" where
  "run [] st = st"
| "run (e # es) st = run es (step e st)"

section \<open>The read model (lines 108 to 140)\<close>

text \<open>
  The context value pairs a device list with the cached selection. The declarations of
  \<^verbatim>\<open>DeviceTypeContext\<close>, \<^verbatim>\<open>DeviceConfig\<close> and of the formatted additional devices are
  not part of the source file; \<^verbatim>\<open>useAudioInputs\<close> never looks into a device, so the
  type of the \<^verbatim>\<open>devices\<close> field is a parameter. A device of the merged list is a
  hardware device (\<open>Inl\<close>) or an additional one (\<open>Inr\<close>).
\<close>

record 'a DeviceTypeContext =
  devices :: 'a
  selectedDevice :: "string option"

record DeviceConfig =
  additionalDevices :: "bool option"

datatype Error = Error string

text \<open>Lines 108 to 114, and what \<^verbatim>\<open>useContext\<close> returns outside and inside the provider.\<close>

definition contextValue :: "provider \<Rightarrow> (MediaDeviceInfo + 'f) list DeviceTypeContext" where
  "contextValue st =
     \<lparr>devices = map Inl (audioInputs st), selectedDevice = cachedSelectedAudioInputDevice st\<rparr>"

definition useContext_outside :: "'a DeviceTypeContext option" where
  "useContext_outside = None"

definition useContext_inside :: "provider \<Rightarrow> (MediaDeviceInfo + 'f) list DeviceTypeContext option" where
  "useContext_inside st = Some (contextValue st)"

text \<open>Line 120: \<^verbatim>\<open>props && props.additionalDevices\<close>, as a truth value.\<close>

definition needAdditionalIO :: "DeviceConfig option \<Rightarrow> bool" where
  "needAdditionalIO props =
     (case props of
        None \<Rightarrow> False
      | Some p \<Rightarrow> (case additionalDevices p of None \<Rightarrow> False | Some b \<Rightarrow> b))"

text \<open>
  Lines 119 to 140. \<open>additionalAudioInputs\<close> is what
  \<^verbatim>\<open>getFormattedDropdownDeviceOptions(AUDIO_INPUT)\<close> returns (a list or null); neither the
  function nor the constant is part of the source file.
\<close>

definition useAudioInputs ::
  "DeviceConfig option \<Rightarrow> 'd list option \<Rightarrow> 'd list DeviceTypeContext option
    \<Rightarrow> Error + 'd list DeviceTypeContext" where
  "useAudioInputs props additionalAudioInputs ctxt =
     (case ctxt of
        None \<Rightarrow> Inl (Error ''useAudioInputs must be used within AudioInputProvider'')
      | Some c \<Rightarrow>
          Inr \<lparr>devices =
                 (if needAdditionalIO props then
                    (case additionalAudioInputs of
                       None \<Rightarrow> devices c
                     | Some additional \<Rightarrow> devices c @ additional)
                  else devices c),
               selectedDevice = selectedDevice c\<rparr>)"

subsection \<open>The read model with arrays as objects\<close>

text \<open>
  Whether the accessor writes into the provider's list is a question about object
  identity: \<^verbatim>\<open>context.devices\<close> is a reference to an array, and the spread
  \<^verbatim>\<open>[...devices, ...additionalAudioInputs]\<close> allocates a new one. Here arrays live in a
  store, the \<^verbatim>\<open>devices\<close> field holds an address, and the accessor returns the store
  it leaves behind.
\<close>

type_synonym ref = nat

record 'd store =
  arrays :: "ref \<Rightarrow> 'd list"
  fresh :: ref

definition array_literal :: "'d list \<Rightarrow> 'd store \<Rightarrow> ref \<times> 'd store" where
  "array_literal xs h = (fresh h, \<lparr>arrays = (arrays h)(fresh h := xs), fresh = Suc (fresh h)\<rparr>)"

definition useAudioInputs_store ::
  "DeviceConfig option \<Rightarrow> 'd list option \<Rightarrow> ref DeviceTypeContext option \<Rightarrow> 'd store
    \<Rightarrow> Error + (ref DeviceTypeContext \<times> 'd store)" where
  "useAudioInputs_store props additionalAudioInputs ctxt h =
     (case ctxt of
        None \<Rightarrow> Inl (Error ''useAudioInputs must be used within AudioInputProvider'')
      | Some c \<Rightarrow>
          (if needAdditionalIO props then
             (case additionalAudioInputs of
                None \<Rightarrow> Inr (\<lparr>devices = devices c, selectedDevice = selectedDevice c\<rparr>, h)
              | Some additional \<Rightarrow>
                  (let (r, h') = array_literal (arrays h (devices c) @ additional) h
                   in Inr (\<lparr>devices = r, selectedDevice = selectedDevice c\<rparr>, h')))
           else Inr (\<lparr>devices = devices c, selectedDevice = selectedDevice c\<rparr>, h)))"

text \<open>Reading a context object's array out of the store.\<close>

definition deref :: "'d store \<Rightarrow> ref DeviceTypeContext \<Rightarrow> 'd list DeviceTypeContext" where
  "deref h c = \<lparr>devices = arrays h (devices c), selectedDevice = selectedDevice c\<rparr>"

section \<open>Concrete collaborators and devices\<close>

definition mic :: "string \<Rightarrow> string \<Rightarrow> MediaDeviceInfo" where
  "mic i l = \<lparr>deviceId = i, groupId = ''g'', kind = audioinput, label = l\<rparr>"

definition manager :: "string option \<Rightarrow> string option \<Rightarrow> MeetingManager" where
  "manager i l =
     \<lparr>selectedAudioInputDevice = i, selectedAudioInputDeviceLabel = l,
      selectAudioInputDevice = (\<lambda>_. Resolved ())\<rparr>"

definition engine_ok :: AudioVideoFacade where
  "engine_ok = \<lparr>chooseAudioInputDevice = (\<lambda>_. Resolved ())\<rparr>"

definition engine_failing :: AudioVideoFacade where
  "engine_failing = \<lparr>chooseAudioInputDevice = (\<lambda>_. Rejected)\<rparr>"

section \<open>The initialized flag\<close>

lemma step_keeps_initialized: "initialized st \<Longrightarrow> initialized (step e st)"
  by (cases e)
     (auto simp: callback_def initAudioInput_def initAudioInput_resume_def init_cleanup_def
        list_audioInputsChanged_def reconcile_effect_body_def reconcile_cleanup_def
        reconcile_fired_def Let_def split: option.splits settled.splits)

lemma run_keeps_initialized: "initialized st \<Longrightarrow> initialized (run es st)"
  by (induction es arbitrary: st) (simp_all add: step_keeps_initialized)

lemma step_sets_initialized:
  assumes "\<not> initialized st" and "initialized (step e st)"
  shows "\<exists>k ds. e = FetchSettled k (Resolved ds) \<and> k < length (effects st)
           \<and> pending (effects st ! k) \<and> isMounted (effects st ! k)"
  using assms
  by (cases e)
     (auto simp: callback_def initAudioInput_def initAudioInput_resume_def init_cleanup_def
        list_audioInputsChanged_def reconcile_effect_body_def reconcile_cleanup_def
        reconcile_fired_def Let_def split: option.splits settled.splits if_splits)

text \<open>
  C8: the flag starts false; no sequence of events resets it once it is true; and the
  only event that turns it from false to true is the settling of an outstanding
  enumeration request with a device list, for a run whose \<^verbatim>\<open>isMounted\<close> still holds.
\<close>

theorem initialized_one_way:
  "initialized (initial meetingManager) = False
   \<and> (initialized st \<longrightarrow> initialized (run es st))
   \<and> (\<not> initialized st \<and> initialized (step e st) \<longrightarrow>
        (\<exists>k ds. e = FetchSettled k (Resolved ds) \<and> k < length (effects st)
           \<and> pending (effects st ! k) \<and> isMounted (effects st ! k)))"
  using run_keeps_initialized step_sets_initialized by (simp add: initial_def)

theorem initialized_one_way_witness:
  "\<not> initialized (step (InitEffect (Some engine_ok)) (initial (manager None None)))
   \<and> initialized (step (FetchSettled 0 (Resolved [mic ''a'' ''Mic A'']))
        (step (InitEffect (Some engine_ok)) (initial (manager None None))))
   \<and> (\<exists>k ds. FetchSettled 0 (Resolved [mic ''a'' ''Mic A'']) = FetchSettled k (Resolved ds)
        \<and> k < length (effects (step (InitEffect (Some engine_ok)) (initial (manager None None))))
        \<and> pending (effects (step (InitEffect (Some engine_ok)) (initial (manager None None))) ! k)
        \<and> isMounted (effects (step (InitEffect (Some engine_ok)) (initial (manager None None))) ! k))
   \<and> initialized (run [InitCleanup 0, InitEffect None, FetchSettled 0 Rejected]
        (step (FetchSettled 0 (Resolved [mic ''a'' ''Mic A'']))
           (step (InitEffect (Some engine_ok)) (initial (manager None None)))))"
proof -
  let ?st = "step (InitEffect (Some engine_ok)) (initial (manager None None))"
  let ?e = "FetchSettled 0 (Resolved [mic ''a'' ''Mic A''])"
  have before: "\<not> initialized ?st"
    by (simp add: initial_def initAudioInput_def)
  have after: "initialized (step ?e ?st)"
    by (simp add: initial_def initAudioInput_def initAudioInput_resume_def)
  show ?thesis
    using before after
      initialized_one_way [of "manager None None" ?st "[]" ?e]
      initialized_one_way [of "manager None None" "step ?e ?st"
        "[InitCleanup 0, InitEffect None, FetchSettled 0 Rejected]" ?e]
    by blast
qed

section \<open>Teardown while the enumeration request is outstanding\<close>

lemma step_keeps_unmounted:
  assumes "k < length (effects st)" and "\<not> isMounted (effects st ! k)"
  shows "k < length (effects (step e st)) \<and> \<not> isMounted (effects (step e st) ! k)"
  using assms
  by (cases e)
     (auto simp: callback_def initAudioInput_def initAudioInput_resume_def init_cleanup_def
        list_audioInputsChanged_def reconcile_effect_body_def reconcile_cleanup_def
        reconcile_fired_def Let_def nth_append nth_list_update
        split: option.splits settled.splits)

lemma run_keeps_unmounted:
  "k < length (effects st) \<Longrightarrow> \<not> isMounted (effects st ! k) \<Longrightarrow>
     k < length (effects (run es st)) \<and> \<not> isMounted (effects (run es st) ! k)"
proof (induction es arbitrary: st)
  case Nil
  then show ?case by simp
next
  case (Cons e es)
  then show ?case using step_keeps_unmounted by simp
qed

lemma cleanup_unmounts:
  "k < length (effects st) \<Longrightarrow>
     k < length (effects (init_cleanup k st)) \<and> \<not> isMounted (effects (init_cleanup k st) ! k)"
  by (simp add: init_cleanup_def)

lemma resume_unmounted:
  assumes "k < length (effects st)" and "\<not> isMounted (effects st ! k)"
  shows "audioInputs (initAudioInput_resume k result st) = audioInputs st
       \<and> calls (initAudioInput_resume k result st) = calls st
       \<and> initialized (initAudioInput_resume k result st) = initialized st
       \<and> cachedSelectedAudioInputDevice (initAudioInput_resume k result st) =
           cachedSelectedAudioInputDevice st"
  using assms by (simp add: initAudioInput_resume_def Let_def split: settled.splits)

text \<open>
  C1: once the cleanup of run \<open>k\<close> of the enumeration effect has run, whatever happens
  in between (\<open>es\<close>), the later resolution of that run's request writes no device list,
  issues no call (so adds no observer), leaves the initialized flag as it was and does
  not touch the cached selection.
\<close>

theorem torn_down_fetch_is_discarded:
  assumes "k < length (effects st)"
  shows "audioInputs (step (FetchSettled k (Resolved ds)) (run es (step (InitCleanup k) st))) =
           audioInputs (run es (step (InitCleanup k) st))
       \<and> calls (step (FetchSettled k (Resolved ds)) (run es (step (InitCleanup k) st))) =
           calls (run es (step (InitCleanup k) st))
       \<and> initialized (step (FetchSettled k (Resolved ds)) (run es (step (InitCleanup k) st))) =
           initialized (run es (step (InitCleanup k) st))
       \<and> cachedSelectedAudioInputDevice
           (step (FetchSettled k (Resolved ds)) (run es (step (InitCleanup k) st))) =
           cachedSelectedAudioInputDevice (run es (step (InitCleanup k) st))"
proof -
  let ?torn = "run es (step (InitCleanup k) st)"
  have "k < length (effects (step (InitCleanup k) st))
        \<and> \<not> isMounted (effects (step (InitCleanup k) st) ! k)"
    using assms cleanup_unmounts by simp
  then have "k < length (effects ?torn) \<and> \<not> isMounted (effects ?torn ! k)"
    using run_keeps_unmounted by blast
  then show ?thesis using resume_unmounted [of k ?torn] by simp
qed

theorem torn_down_fetch_is_discarded_witness:
  "0 < length (effects (step (InitEffect (Some engine_ok)) (initial (manager None None))))
   \<and> pending (effects (step (InitEffect (Some engine_ok)) (initial (manager None None))) ! 0)
   \<and> audioInputs (run [InitEffect (Some engine_ok), InitCleanup 0, SelectionCallback (Some ''a''),
        FetchSettled 0 (Resolved [mic ''a'' ''Mic A''])] (initial (manager None None))) = []
   \<and> calls (run [InitEffect (Some engine_ok), InitCleanup 0, SelectionCallback (Some ''a''),
        FetchSettled 0 (Resolved [mic ''a'' ''Mic A''])] (initial (manager None None))) =
       [ListAudioInputDevices, RemoveDeviceChangeObserver (ListObserver 0)]
   \<and> \<not> initialized (run [InitEffect (Some engine_ok), InitCleanup 0, SelectionCallback (Some ''a''),
        FetchSettled 0 (Resolved [mic ''a'' ''Mic A''])] (initial (manager None None)))"
  using torn_down_fetch_is_discarded
      [of 0 "step (InitEffect (Some engine_ok)) (initial (manager None None))"
          "[mic ''a'' ''Mic A'']" "[SelectionCallback (Some ''a'')]"]
  by (simp add: initial_def initAudioInput_def init_cleanup_def callback_def
       initAudioInput_resume_def manager_def)

section \<open>Reconciliation\<close>

lemma audioInputsChanged_uninitialized:
  "audioInputsChanged False selected meetingManager audioVideo newAudioInputs = ([], Resolved ())"
  by (simp add: audioInputsChanged_def)

lemma step_uninitialized_no_reconciliation:
  assumes "\<not> initialized st"
  shows "filter is_reconciliation (calls (step e st)) = filter is_reconciliation (calls st)"
  using assms
  by (cases e)
     (auto simp: callback_def initAudioInput_def initAudioInput_resume_def init_cleanup_def
        list_audioInputsChanged_def reconcile_effect_body_def reconcile_cleanup_def
        reconcile_fired_def Let_def audioInputsChanged_uninitialized
        split: option.splits settled.splits)

lemma run_uninitialized_no_reconciliation:
  "\<not> initialized (run es st) \<Longrightarrow>
     filter is_reconciliation (calls (run es st)) = filter is_reconciliation (calls st)"
proof (induction es arbitrary: st)
  case Nil
  then show ?case by simp
next
  case (Cons e es)
  from Cons.prems have late: "\<not> initialized (run es (step e st))" by simp
  then have "\<not> initialized (step e st)" using run_keeps_initialized by blast
  then have early: "\<not> initialized st" using step_keeps_initialized by blast
  have "filter is_reconciliation (calls (run es (step e st))) =
          filter is_reconciliation (calls (step e st))"
    using Cons.IH late by blast
  also have "\<dots> = filter is_reconciliation (calls st)"
    using early by (rule step_uninitialized_no_reconciliation)
  finally show ?case by simp
qed

lemma fire_uninitialized: "\<not> initialized st \<Longrightarrow> step (fire f) st = st"
  by (cases f) (simp add: reconcile_fired_def audioInputsChanged_uninitialized)

lemma run_fires_uninitialized: "\<not> initialized st \<Longrightarrow> run (map fire fires) st = st"
  by (induction fires) (simp_all add: fire_uninitialized)

text \<open>
  C5: while the initialized flag is unset, any sequence of enumeration-change events
  delivered to the reconciliation observer leaves the provider as it was, so it issues
  no call at all; and for any sequence of events of any kind, as long as the flag is
  still unset at its end, no deselect, reselect or select-none call has been added.
\<close>

theorem no_reconciliation_before_initialized:
  "(\<not> initialized st \<longrightarrow> run (map fire fires) st = st)
   \<and> (\<not> initialized (run es st) \<longrightarrow>
        filter is_reconciliation (calls (run es st)) = filter is_reconciliation (calls st))"
  using run_fires_uninitialized run_uninitialized_no_reconciliation by blast

theorem no_reconciliation_before_initialized_witness:
  "\<not> initialized (run [InitEffect (Some engine_ok), ReconcileEffect (Some engine_ok)]
                     (initial (manager (Some ''a'') (Some ''Mic A''))))
   \<and> selected_captured
        (reconcilers (run [InitEffect (Some engine_ok), ReconcileEffect (Some engine_ok)]
                        (initial (manager (Some ''a'') (Some ''Mic A'')))) ! 0) = Some ''a''
   \<and> run (map fire [(0, manager (Some ''a'') (Some ''Mic A''), [mic ''a'' ''Mic B'']),
                    (0, manager (Some ''a'') (Some ''Mic A''), [mic ''b'' ''Mic B''])])
        (run [InitEffect (Some engine_ok), ReconcileEffect (Some engine_ok)]
           (initial (manager (Some ''a'') (Some ''Mic A'')))) =
       run [InitEffect (Some engine_ok), ReconcileEffect (Some engine_ok)]
         (initial (manager (Some ''a'') (Some ''Mic A'')))
   \<and> \<not> initialized
        (run [InitEffect (Some engine_ok), ReconcileEffect (Some engine_ok),
              ReconcileFired 0 (manager (Some ''a'') (Some ''Mic A'')) [mic ''b'' ''Mic B''],
              InitCleanup 0]
           (initial (manager (Some ''a'') (Some ''Mic A''))))
   \<and> filter is_reconciliation
        (calls (run [InitEffect (Some engine_ok), ReconcileEffect (Some engine_ok),
                     ReconcileFired 0 (manager (Some ''a'') (Some ''Mic A'')) [mic ''b'' ''Mic B''],
                     InitCleanup 0]
                  (initial (manager (Some ''a'') (Some ''Mic A''))))) = []"
proof -
  let ?m = "manager (Some ''a'') (Some ''Mic A'')"
  let ?st = "run [InitEffect (Some engine_ok), ReconcileEffect (Some engine_ok)] (initial ?m)"
  let ?es = "[InitEffect (Some engine_ok), ReconcileEffect (Some engine_ok),
              ReconcileFired 0 ?m [mic ''b'' ''Mic B''], InitCleanup 0]"
  have early: "\<not> initialized ?st"
    by (simp add: initial_def initAudioInput_def reconcile_effect_body_def)
  have holds: "selected_captured (reconcilers ?st ! 0) = Some ''a''"
    by (simp add: initial_def initAudioInput_def reconcile_effect_body_def manager_def)
  have late: "\<not> initialized (run ?es (initial ?m))"
    by (simp add: initial_def initAudioInput_def init_cleanup_def reconcile_effect_body_def
          reconcile_fired_def)
  have start: "filter is_reconciliation (calls (initial ?m)) = []"
    by (simp add: initial_def)
  have quiet: "run (map fire [(0, ?m, [mic ''a'' ''Mic B'']), (0, ?m, [mic ''b'' ''Mic B''])]) ?st = ?st"
    using early
      no_reconciliation_before_initialized
        [of ?st "[(0, ?m, [mic ''a'' ''Mic B'']), (0, ?m, [mic ''b'' ''Mic B''])]"]
    by blast
  have silent: "filter is_reconciliation (calls (run ?es (initial ?m))) = []"
    using late start no_reconciliation_before_initialized [of "initial ?m" "[]" ?es]
    by simp
  show ?thesis using early holds quiet late silent by blast
qed

text \<open>
  C2, as the code has it: after initialization, when the first entry of the new list
  with the cached selected id has a label other than the one the session manager
  reports, the observer logs, makes exactly one deselect call (choose-input-device
  with null) and then, if that call resolves, exactly one select call with the entry's
  id, and nothing else. If the deselect call rejects, the \<^verbatim>\<open>await\<close> throws and the
  select call is not made.
\<close>

theorem stale_label_drops_then_reselects:
  assumes "initialized_current"
    and "find (\<lambda>device. Some (deviceId device) = selected) newAudioInputs = Some existingDevice"
    and "Some (label existingDevice) \<noteq> selectedAudioInputDeviceLabel meetingManager"
  shows "fst (audioInputsChanged initialized_current selected meetingManager audioVideo newAudioInputs) =
           [ConsoleLog ''Stale audio input device found. Dropping and selecting audio input'',
            ChooseAudioInputDevice None] @
           (case chooseAudioInputDevice audioVideo None of
              Resolved _ \<Rightarrow> [SelectAudioInputDevice (deviceId existingDevice)]
            | Rejected \<Rightarrow> [])"
  using assms by (simp add: audioInputsChanged_def split: settled.splits)

theorem stale_label_drops_then_reselects_witness:
  "find (\<lambda>device. Some (deviceId device) = Some ''a'') [mic ''a'' ''Mic B''] = Some (mic ''a'' ''Mic B'')
   \<and> Some (label (mic ''a'' ''Mic B'')) \<noteq>
       selectedAudioInputDeviceLabel (manager (Some ''a'') (Some ''Mic A''))
   \<and> fst (audioInputsChanged True (Some ''a'') (manager (Some ''a'') (Some ''Mic A'')) engine_ok
            [mic ''a'' ''Mic B'']) =
       [ConsoleLog ''Stale audio input device found. Dropping and selecting audio input'',
        ChooseAudioInputDevice None, SelectAudioInputDevice ''a'']"
proof -
  have present: "find (\<lambda>device. Some (deviceId device) = Some ''a'') [mic ''a'' ''Mic B''] =
                   Some (mic ''a'' ''Mic B'')"
    by (simp add: mic_def)
  have differs: "Some (label (mic ''a'' ''Mic B'')) \<noteq>
                   selectedAudioInputDeviceLabel (manager (Some ''a'') (Some ''Mic A''))"
    by (simp add: mic_def manager_def)
  show ?thesis
    using present differs
      stale_label_drops_then_reselects [OF TrueI present differs, of engine_ok]
    by (simp add: engine_ok_def mic_def)
qed

text \<open>
  C2 as stated fails where the engine rejects the deselect call: the list
  \<open>[{a, Mic B}]\<close> arrives, \<open>a\<close> is selected and the session manager still reports the
  label \<open>Mic A\<close>, so the premises hold; the observer makes the deselect call and no
  select call.
\<close>

theorem stale_label_rejected_deselect_counterexample:
  "find (\<lambda>device. Some (deviceId device) = Some ''a'') [mic ''a'' ''Mic B''] = Some (mic ''a'' ''Mic B'')
   \<and> Some (label (mic ''a'' ''Mic B'')) \<noteq>
       selectedAudioInputDeviceLabel (manager (Some ''a'') (Some ''Mic A''))
   \<and> filter is_reconciliation
        (fst (audioInputsChanged True (Some ''a'') (manager (Some ''a'') (Some ''Mic A''))
               engine_failing [mic ''a'' ''Mic B''])) \<noteq>
       [ChooseAudioInputDevice None, SelectAudioInputDevice ''a'']
   \<and> fst (audioInputsChanged True (Some ''a'') (manager (Some ''a'') (Some ''Mic A''))
            engine_failing [mic ''a'' ''Mic B'']) =
       [ConsoleLog ''Stale audio input device found. Dropping and selecting audio input'',
        ChooseAudioInputDevice None]"
  by (simp add: audioInputsChanged_def mic_def manager_def engine_failing_def)

text \<open>
  C3: after initialization, when no entry of the new list has the cached selected id,
  the observer makes exactly one call, selecting the device \<open>none\<close> on the session
  manager; its promise settles as that call does.
\<close>

theorem absent_selection_selects_none:
  assumes "initialized_current"
    and "\<forall>device\<in>set newAudioInputs. Some (deviceId device) \<noteq> selected"
  shows "audioInputsChanged initialized_current selected meetingManager audioVideo newAudioInputs =
           ([SelectAudioInputDevice ''none''], selectAudioInputDevice meetingManager ''none'')"
proof -
  have "find (\<lambda>device. Some (deviceId device) = selected) newAudioInputs = None"
    using assms(2) by (simp add: find_None_iff)
  then show ?thesis using assms(1) by (simp add: audioInputsChanged_def)
qed

theorem absent_selection_selects_none_witness:
  "Some (deviceId (mic ''b'' ''Mic B'')) \<noteq> Some ''a''
   \<and> fst (audioInputsChanged True (Some ''a'') (manager (Some ''a'') (Some ''Mic A'')) engine_ok
            [mic ''b'' ''Mic B'']) = [SelectAudioInputDevice ''none'']"
proof -
  have absent: "\<forall>device\<in>set [mic ''b'' ''Mic B'']. Some (deviceId device) \<noteq> Some ''a''"
    by (simp add: mic_def)
  show ?thesis
    using absent
      absent_selection_selects_none
        [OF TrueI absent, of "manager (Some ''a'') (Some ''Mic A'')" engine_ok]
    by simp
qed

text \<open>
  C4: after initialization, when the first entry of the new list with the cached
  selected id has the label and the id that the session manager reports, the observer
  makes no call (and logs nothing).
\<close>

theorem unchanged_selection_is_quiet:
  assumes "initialized_current"
    and "find (\<lambda>device. Some (deviceId device) = selected) newAudioInputs = Some existingDevice"
    and "Some (label existingDevice) = selectedAudioInputDeviceLabel meetingManager"
    and "Some (deviceId existingDevice) = selectedAudioInputDevice meetingManager"
  shows "audioInputsChanged initialized_current selected meetingManager audioVideo newAudioInputs =
           ([], Resolved ())"
  using assms by (simp add: audioInputsChanged_def)

theorem unchanged_selection_is_quiet_witness:
  "find (\<lambda>device. Some (deviceId device) = Some ''a'') [mic ''b'' ''Mic B'', mic ''a'' ''Mic A''] =
     Some (mic ''a'' ''Mic A'')
   \<and> Some (label (mic ''a'' ''Mic A'')) =
       selectedAudioInputDeviceLabel (manager (Some ''a'') (Some ''Mic A''))
   \<and> Some (deviceId (mic ''a'' ''Mic A'')) =
       selectedAudioInputDevice (manager (Some ''a'') (Some ''Mic A''))
   \<and> fst (audioInputsChanged True (Some ''a'') (manager (Some ''a'') (Some ''Mic A'')) engine_ok
            [mic ''b'' ''Mic B'', mic ''a'' ''Mic A'']) = []"
proof -
  have present: "find (\<lambda>device. Some (deviceId device) = Some ''a'')
                   [mic ''b'' ''Mic B'', mic ''a'' ''Mic A''] = Some (mic ''a'' ''Mic A'')"
    by (simp add: mic_def)
  have same_label: "Some (label (mic ''a'' ''Mic A'')) =
                   selectedAudioInputDeviceLabel (manager (Some ''a'') (Some ''Mic A''))"
    by (simp add: mic_def manager_def)
  have same_id: "Some (deviceId (mic ''a'' ''Mic A'')) =
                   selectedAudioInputDevice (manager (Some ''a'') (Some ''Mic A''))"
    by (simp add: mic_def manager_def)
  show ?thesis
    using present same_label same_id
      unchanged_selection_is_quiet [OF TrueI present same_label same_id, of engine_ok]
    by simp
qed

lemma audioInputsChanged_none_selected:
  assumes "initialized_current"
    and "selected = None
         \<or> (selected = Some ''none'' \<and> (\<forall>d\<in>set newAudioInputs. deviceId d \<noteq> ''none''))"
  shows "audioInputsChanged initialized_current selected meetingManager audioVideo newAudioInputs =
           ([SelectAudioInputDevice ''none''], selectAudioInputDevice meetingManager ''none'')"
proof -
  have "find (\<lambda>device. Some (deviceId device) = selected) newAudioInputs = None"
    using assms(2) by (auto simp: find_None_iff)
  then show ?thesis using assms(1) by (simp add: audioInputsChanged_def)
qed

lemma fire_none_selected:
  assumes "initialized st"
    and "fst f < length (reconcilers st)"
    and "selected_captured (reconcilers st ! fst f) = None
         \<or> (selected_captured (reconcilers st ! fst f) = Some ''none''
            \<and> (\<forall>d\<in>set (snd (snd f)). deviceId d \<noteq> ''none''))"
  shows "step (fire f) st = st\<lparr>calls := calls st @ [SelectAudioInputDevice ''none'']\<rparr>"
proof -
  obtain j mm xs where f: "f = (j, mm, xs)" by (cases f) auto
  have "audioInputsChanged (initialized st) (selected_captured (reconcilers st ! j)) mm
          (engine (reconcilers st ! j)) xs =
          ([SelectAudioInputDevice ''none''], selectAudioInputDevice mm ''none'')"
    using assms(1,3) f by (intro audioInputsChanged_none_selected) auto
  then show ?thesis using assms(2) f by (simp add: reconcile_fired_def)
qed

lemma run_fires_none_selected:
  assumes "initialized st"
    and "\<forall>f\<in>set fires. fst f < length (reconcilers st)
           \<and> (selected_captured (reconcilers st ! fst f) = None
              \<or> (selected_captured (reconcilers st ! fst f) = Some ''none''
                 \<and> (\<forall>d\<in>set (snd (snd f)). deviceId d \<noteq> ''none'')))"
  shows "run (map fire fires) st =
           st\<lparr>calls := calls st @ replicate (length fires) (SelectAudioInputDevice ''none'')\<rparr>"
  using assms
proof (induction fires arbitrary: st)
  case Nil
  then show ?case by simp
next
  case (Cons f fires)
  let ?st1 = "st\<lparr>calls := calls st @ [SelectAudioInputDevice ''none'']\<rparr>"
  have one: "step (fire f) st = ?st1"
    using Cons.prems by (intro fire_none_selected) auto
  have "run (map fire fires) ?st1 =
          ?st1\<lparr>calls := calls ?st1 @ replicate (length fires) (SelectAudioInputDevice ''none'')\<rparr>"
    using Cons.prems by (intro Cons.IH) auto
  then show ?case using one by (simp add: replicate_append_same)
qed

text \<open>
  An observer acts on the selection it captured, not on the provider's current one.
  Here the observer was created while \<open>a\<close> was selected; the cached selection then
  becomes \<open>none\<close>, and before the effect runs again the engine delivers
  \<open>[{a, Mic B}]\<close>: the observer finds \<open>a\<close>, sees a label other than the session
  manager's, and drops and reselects \<open>a\<close>.
\<close>

lemma stale_observer_acts_on_captured_selection:
  "cachedSelectedAudioInputDevice
     (run [InitEffect (Some engine_ok), FetchSettled 0 (Resolved [mic ''a'' ''Mic A'']),
           ReconcileEffect (Some engine_ok), SelectionCallback (Some ''none'')]
        (initial (manager (Some ''a'') (Some ''Mic A'')))) = Some ''none''
   \<and> calls
       (run [InitEffect (Some engine_ok), FetchSettled 0 (Resolved [mic ''a'' ''Mic A'']),
             ReconcileEffect (Some engine_ok), SelectionCallback (Some ''none''),
             ReconcileFired 0 (manager (Some ''a'') (Some ''Mic A'')) [mic ''a'' ''Mic B'']]
          (initial (manager (Some ''a'') (Some ''Mic A'')))) =
       [ListAudioInputDevices, AddDeviceChangeObserver (ListObserver 0),
        AddDeviceChangeObserver (ReconcileObserver 0),
        ConsoleLog ''Stale audio input device found. Dropping and selecting audio input'',
        ChooseAudioInputDevice None, SelectAudioInputDevice ''a'']"
  by (simp add: initial_def initAudioInput_def initAudioInput_resume_def reconcile_effect_body_def
        callback_def reconcile_fired_def audioInputsChanged_def manager_def mic_def engine_ok_def)

text \<open>
  C10: after initialization, an observer whose cached selection (the
  \<^verbatim>\<open>selectedAudioInputDevice\<close> of its closure) is null, or is \<open>none\<close> while no
  enumerated device has the id \<open>none\<close>, takes the absent-device branch on every
  enumeration-change event: it makes exactly one call, select-none. Nothing makes it
  quiescent: \<open>n\<close> events delivered to such observers add \<open>n\<close> select-none calls and
  change nothing else.
\<close>

theorem nothing_selected_is_not_quiescent:
  "(initialized_current
      \<and> (selected = None
         \<or> (selected = Some ''none'' \<and> (\<forall>d\<in>set newAudioInputs. deviceId d \<noteq> ''none'')))
    \<longrightarrow> audioInputsChanged initialized_current selected meetingManager audioVideo newAudioInputs =
          ([SelectAudioInputDevice ''none''], selectAudioInputDevice meetingManager ''none''))
   \<and> (initialized st
       \<and> (\<forall>f\<in>set fires. fst f < length (reconcilers st)
             \<and> (selected_captured (reconcilers st ! fst f) = None
                \<or> (selected_captured (reconcilers st ! fst f) = Some ''none''
                   \<and> (\<forall>d\<in>set (snd (snd f)). deviceId d \<noteq> ''none''))))
    \<longrightarrow> run (map fire fires) st =
          st\<lparr>calls := calls st @ replicate (length fires) (SelectAudioInputDevice ''none'')\<rparr>)"
  using audioInputsChanged_none_selected run_fires_none_selected by blast

theorem nothing_selected_is_not_quiescent_witness:
  "fst (audioInputsChanged True None (manager None None) engine_ok [mic ''a'' ''Mic A'']) =
     [SelectAudioInputDevice ''none'']
   \<and> deviceId (mic ''a'' ''Mic A'') \<noteq> ''none''
   \<and> fst (audioInputsChanged True (Some ''none'') (manager (Some ''none'') None) engine_ok
            [mic ''a'' ''Mic A'']) = [SelectAudioInputDevice ''none'']
   \<and> initialized
       (run [InitEffect (Some engine_ok), FetchSettled 0 (Resolved [mic ''a'' ''Mic A'']),
             ReconcileEffect (Some engine_ok)]
          (initial (manager None None)))
   \<and> selected_captured
       (reconcilers
          (run [InitEffect (Some engine_ok), FetchSettled 0 (Resolved [mic ''a'' ''Mic A'']),
                ReconcileEffect (Some engine_ok)]
             (initial (manager None None))) ! 0) = None
   \<and> calls
       (run (map fire [(0, manager None None, [mic ''a'' ''Mic A'']),
                       (0, manager (Some ''none'') None, [mic ''a'' ''Mic A''])])
          (run [InitEffect (Some engine_ok), FetchSettled 0 (Resolved [mic ''a'' ''Mic A'']),
                ReconcileEffect (Some engine_ok)]
             (initial (manager None None)))) =
       [ListAudioInputDevices, AddDeviceChangeObserver (ListObserver 0),
        AddDeviceChangeObserver (ReconcileObserver 0),
        SelectAudioInputDevice ''none'', SelectAudioInputDevice ''none'']
   \<and> selected_captured
       (reconcilers
          (run [InitEffect (Some engine_ok), FetchSettled 0 (Resolved [mic ''a'' ''Mic A'']),
                ReconcileEffect (Some engine_ok), SelectionCallback (Some ''none''),
                ReconcileCleanup 0, ReconcileEffect (Some engine_ok)]
             (initial (manager None None))) ! 1) = Some ''none''
   \<and> calls
       (run (map fire [(1, manager (Some ''none'') None, [mic ''a'' ''Mic A'']),
                       (1, manager (Some ''none'') None, [mic ''a'' ''Mic A''])])
          (run [InitEffect (Some engine_ok), FetchSettled 0 (Resolved [mic ''a'' ''Mic A'']),
                ReconcileEffect (Some engine_ok), SelectionCallback (Some ''none''),
                ReconcileCleanup 0, ReconcileEffect (Some engine_ok)]
             (initial (manager None None)))) =
       [ListAudioInputDevices, AddDeviceChangeObserver (ListObserver 0),
        AddDeviceChangeObserver (ReconcileObserver 0),
        RemoveDeviceChangeObserver (ReconcileObserver 0),
        AddDeviceChangeObserver (ReconcileObserver 1),
        SelectAudioInputDevice ''none'', SelectAudioInputDevice ''none'']"
proof -
  let ?m = "manager (Some ''none'') None"
  let ?sta = "run [InitEffect (Some engine_ok), FetchSettled 0 (Resolved [mic ''a'' ''Mic A'']),
                   ReconcileEffect (Some engine_ok)]
                (initial (manager None None))"
  let ?firesa = "[(0::nat, manager None None, [mic ''a'' ''Mic A'']), (0, ?m, [mic ''a'' ''Mic A''])]"
  let ?stb = "run [InitEffect (Some engine_ok), FetchSettled 0 (Resolved [mic ''a'' ''Mic A'']),
                   ReconcileEffect (Some engine_ok), SelectionCallback (Some ''none''),
                   ReconcileCleanup 0, ReconcileEffect (Some engine_ok)]
                (initial (manager None None))"
  let ?firesb = "[(1::nat, ?m, [mic ''a'' ''Mic A'']), (1, ?m, [mic ''a'' ''Mic A''])]"
  have other_id: "deviceId (mic ''a'' ''Mic A'') \<noteq> ''none''"
    by (simp add: mic_def)
  have null_case:
    "audioInputsChanged True None (manager None None) engine_ok [mic ''a'' ''Mic A''] =
       ([SelectAudioInputDevice ''none''], selectAudioInputDevice (manager None None) ''none'')"
    using nothing_selected_is_not_quiescent
      [of True None "[mic ''a'' ''Mic A'']" "manager None None" engine_ok]
    by blast
  have sentinel_case:
    "audioInputsChanged True (Some ''none'') ?m engine_ok [mic ''a'' ''Mic A''] =
       ([SelectAudioInputDevice ''none''], selectAudioInputDevice ?m ''none'')"
    using other_id nothing_selected_is_not_quiescent
      [of True "Some ''none''" "[mic ''a'' ''Mic A'']" ?m engine_ok]
    by simp
  have inita: "initialized ?sta"
    by (simp add: initial_def initAudioInput_def initAudioInput_resume_def reconcile_effect_body_def)
  have onea: "length (reconcilers ?sta) = 1"
    by (simp add: initial_def initAudioInput_def initAudioInput_resume_def reconcile_effect_body_def)
  have holdsa: "selected_captured (reconcilers ?sta ! 0) = None"
    by (simp add: initial_def initAudioInput_def initAudioInput_resume_def reconcile_effect_body_def
          manager_def)
  have beforea: "calls ?sta =
      [ListAudioInputDevices, AddDeviceChangeObserver (ListObserver 0),
       AddDeviceChangeObserver (ReconcileObserver 0)]"
    by (simp add: initial_def initAudioInput_def initAudioInput_resume_def reconcile_effect_body_def)
  have unselecteda: "\<forall>f\<in>set ?firesa. fst f < length (reconcilers ?sta)
           \<and> (selected_captured (reconcilers ?sta ! fst f) = None
              \<or> (selected_captured (reconcilers ?sta ! fst f) = Some ''none''
                 \<and> (\<forall>d\<in>set (snd (snd f)). deviceId d \<noteq> ''none'')))"
    using onea holdsa by simp
  have "run (map fire ?firesa) ?sta =
          ?sta\<lparr>calls := calls ?sta @ replicate (length ?firesa) (SelectAudioInputDevice ''none'')\<rparr>"
    using inita unselecteda nothing_selected_is_not_quiescent [of _ _ _ _ _ ?sta ?firesa]
    by blast
  then have "calls (run (map fire ?firesa) ?sta) =
          calls (?sta\<lparr>calls := calls ?sta @ replicate (length ?firesa) (SelectAudioInputDevice ''none'')\<rparr>)"
    by (rule arg_cong)
  then have aftera: "calls (run (map fire ?firesa) ?sta) =
      [ListAudioInputDevices, AddDeviceChangeObserver (ListObserver 0),
       AddDeviceChangeObserver (ReconcileObserver 0),
       SelectAudioInputDevice ''none'', SelectAudioInputDevice ''none'']"
    using beforea by (simp add: numeral_2_eq_2)
  have initb: "initialized ?stb"
    by (simp add: initial_def initAudioInput_def initAudioInput_resume_def reconcile_effect_body_def
          callback_def reconcile_cleanup_def)
  have twob: "length (reconcilers ?stb) = 2"
    by (simp add: initial_def initAudioInput_def initAudioInput_resume_def reconcile_effect_body_def
          callback_def reconcile_cleanup_def)
  have holdsb: "selected_captured (reconcilers ?stb ! 1) = Some ''none''"
    by (simp add: initial_def initAudioInput_def initAudioInput_resume_def reconcile_effect_body_def
          callback_def reconcile_cleanup_def manager_def)
  have beforeb: "calls ?stb =
      [ListAudioInputDevices, AddDeviceChangeObserver (ListObserver 0),
       AddDeviceChangeObserver (ReconcileObserver 0),
       RemoveDeviceChangeObserver (ReconcileObserver 0),
       AddDeviceChangeObserver (ReconcileObserver 1)]"
    by (simp add: initial_def initAudioInput_def initAudioInput_resume_def reconcile_effect_body_def
          callback_def reconcile_cleanup_def)
  have unselectedb: "\<forall>f\<in>set ?firesb. fst f < length (reconcilers ?stb)
           \<and> (selected_captured (reconcilers ?stb ! fst f) = None
              \<or> (selected_captured (reconcilers ?stb ! fst f) = Some ''none''
                 \<and> (\<forall>d\<in>set (snd (snd f)). deviceId d \<noteq> ''none'')))"
    using twob holdsb other_id by simp
  have "run (map fire ?firesb) ?stb =
          ?stb\<lparr>calls := calls ?stb @ replicate (length ?firesb) (SelectAudioInputDevice ''none'')\<rparr>"
    using initb unselectedb nothing_selected_is_not_quiescent [of _ _ _ _ _ ?stb ?firesb]
    by blast
  then have "calls (run (map fire ?firesb) ?stb) =
          calls (?stb\<lparr>calls := calls ?stb @ replicate (length ?firesb) (SelectAudioInputDevice ''none'')\<rparr>)"
    by (rule arg_cong)
  then have afterb: "calls (run (map fire ?firesb) ?stb) =
      [ListAudioInputDevices, AddDeviceChangeObserver (ListObserver 0),
       AddDeviceChangeObserver (ReconcileObserver 0),
       RemoveDeviceChangeObserver (ReconcileObserver 0),
       AddDeviceChangeObserver (ReconcileObserver 1),
       SelectAudioInputDevice ''none'', SelectAudioInputDevice ''none'']"
    using beforeb by (simp add: numeral_2_eq_2)
  show ?thesis
    using null_case sentinel_case other_id inita holdsa aftera holdsb afterb by simp
qed

section \<open>Properties of the read model\<close>

text \<open>
  C6: with the additional-devices flag set, the accessor returns the context's devices
  first, in their order, followed by the configured additional devices (by nothing
  when the configured list is null); inside the provider the context's devices are the
  hardware devices of the provider's state.
\<close>

theorem additional_devices_are_appended:
  assumes "needAdditionalIO props"
  shows "useAudioInputs props additionalAudioInputs (Some c) =
           Inr \<lparr>devices = devices c @
                  (case additionalAudioInputs of None \<Rightarrow> [] | Some additional \<Rightarrow> additional),
                selectedDevice = selectedDevice c\<rparr>
       \<and> useAudioInputs props additionalAudioInputs (useContext_inside st) =
           Inr \<lparr>devices = map Inl (audioInputs st) @
                  (case additionalAudioInputs of None \<Rightarrow> [] | Some additional \<Rightarrow> additional),
                selectedDevice = cachedSelectedAudioInputDevice st\<rparr>"
  using assms
  by (simp add: useAudioInputs_def useContext_inside_def contextValue_def split: option.splits)

theorem additional_devices_are_appended_witness:
  "needAdditionalIO (Some \<lparr>additionalDevices = Some True\<rparr>)
   \<and> useAudioInputs (Some \<lparr>additionalDevices = Some True\<rparr>) (Some [Inr ''none'', Inr ''440''])
       (useContext_inside
          (run [InitEffect (Some engine_ok),
                FetchSettled 0 (Resolved [mic ''a'' ''Mic A'', mic ''b'' ''Mic B''])]
             (initial (manager (Some ''a'') (Some ''Mic A''))))) =
       Inr \<lparr>devices = [Inl (mic ''a'' ''Mic A''), Inl (mic ''b'' ''Mic B''), Inr ''none'', Inr ''440''],
            selectedDevice = Some ''a''\<rparr>"
proof -
  have flag: "needAdditionalIO (Some \<lparr>additionalDevices = Some True\<rparr>)"
    by (simp add: needAdditionalIO_def)
  show ?thesis
    using flag
      additional_devices_are_appended
        [OF flag, of "Some [Inr ''none'', Inr ''440'']"
           "\<lparr>devices = [], selectedDevice = None\<rparr>"
           "run [InitEffect (Some engine_ok),
                 FetchSettled 0 (Resolved [mic ''a'' ''Mic A'', mic ''b'' ''Mic B''])]
              (initial (manager (Some ''a'') (Some ''Mic A'')))"]
    by (simp add: initial_def initAudioInput_def initAudioInput_resume_def manager_def)
qed

text \<open>
  C7: outside the provider, where the context is null, the accessor raises its error
  and returns nothing; inside the provider it returns a value; it raises exactly when
  the context is null.
\<close>

theorem raises_exactly_outside_provider:
  "useAudioInputs props additionalAudioInputs useContext_outside =
     Inl (Error ''useAudioInputs must be used within AudioInputProvider'')
   \<and> (\<exists>r. useAudioInputs props additionalAudioInputs (useContext_inside st) = Inr r)
   \<and> isl (useAudioInputs props additionalAudioInputs ctxt) = (ctxt = None)"
  by (simp add: useAudioInputs_def useContext_outside_def useContext_inside_def split: option.splits)

theorem raises_exactly_outside_provider_witness:
  "useAudioInputs (Some \<lparr>additionalDevices = Some True\<rparr>) (Some [Inr ''none''])
     (None :: (MediaDeviceInfo + string) list DeviceTypeContext option) =
     Inl (Error ''useAudioInputs must be used within AudioInputProvider'')
   \<and> \<not> isl (useAudioInputs None (Some [Inr ''none''])
              (useContext_inside (initial (manager None None))))"
  using
    raises_exactly_outside_provider
      [of "Some \<lparr>additionalDevices = Some True\<rparr>" "Some [Inr ''none'']"
          "initial (manager None None)"
          "None :: (MediaDeviceInfo + string) list DeviceTypeContext option"]
    raises_exactly_outside_provider
      [of None "Some [Inr ''none'']" "initial (manager None None)"
          "useContext_inside (initial (manager None None))"]
  by (simp add: useContext_outside_def useContext_inside_def)

lemma useAudioInputs_store_refines:
  "useAudioInputs_store props additionalAudioInputs (Some c) h = Inr (r, h') \<Longrightarrow>
     useAudioInputs props additionalAudioInputs (Some (deref h c)) = Inr (deref h' r)"
  by (auto simp: useAudioInputs_store_def useAudioInputs_def deref_def array_literal_def
        split: option.splits if_splits)

text \<open>
  C9: the accessor returns without error and leaves every array that existed before
  the call as it was, the array of the context among them; the selection it returns is
  the context's, whatever the flag; and when the flag is unset or the configured list
  is null it returns the context's own array and allocates nothing. What it returns,
  read out of the store, is what the accessor computes on lists.
\<close>

theorem accessor_is_a_pure_read:
  assumes "devices c < fresh h"
  shows "\<exists>r h'. useAudioInputs_store props additionalAudioInputs (Some c) h = Inr (r, h')
           \<and> (\<forall>a<fresh h. arrays h' a = arrays h a)
           \<and> arrays h' (devices c) = arrays h (devices c)
           \<and> selectedDevice r = selectedDevice c
           \<and> (\<not> needAdditionalIO props \<or> additionalAudioInputs = None \<longrightarrow>
                devices r = devices c \<and> h' = h)
           \<and> useAudioInputs props additionalAudioInputs (Some (deref h c)) = Inr (deref h' r)"
  using assms
  by (auto simp: useAudioInputs_store_def useAudioInputs_def deref_def array_literal_def
        split: option.splits)

theorem accessor_is_a_pure_read_witness:
  "devices \<lparr>devices = 0, selectedDevice = Some ''a''\<rparr> < fresh \<lparr>arrays = (\<lambda>_. [1::nat, 2]), fresh = 1\<rparr>
   \<and> (\<exists>r h'. useAudioInputs_store (Some \<lparr>additionalDevices = Some True\<rparr>) (Some [7])
                (Some \<lparr>devices = 0, selectedDevice = Some ''a''\<rparr>)
                \<lparr>arrays = (\<lambda>_. [1::nat, 2]), fresh = 1\<rparr> = Inr (r, h')
         \<and> arrays h' 0 = [1, 2] \<and> arrays h' (devices r) = [1, 2, 7]
         \<and> selectedDevice r = Some ''a'')"
proof -
  let ?c = "\<lparr>devices = 0::nat, selectedDevice = Some ''a''\<rparr>"
  let ?h = "\<lparr>arrays = (\<lambda>_. [1::nat, 2]), fresh = 1\<rparr>"
  have allocated: "devices ?c < fresh ?h" by simp
  show ?thesis
    using allocated
      accessor_is_a_pure_read [OF allocated, of "Some \<lparr>additionalDevices = Some True\<rparr>" "Some [7]"]
    by (auto simp: useAudioInputs_store_def needAdditionalIO_def array_literal_def)
qed

end
